theory Spec2Isabelle
  imports Main "HOL-Library.AList"
begin

section \<open>Characters and strings as the scripts use them\<close>

text \<open>
  Job-control and program texts are Python \<open>str\<close> values. They are modelled as
  \<^typ>\<open>string\<close>, restricted to 7-bit ASCII: the character classes and the case mapping
  below are those of Python's \<open>re\<close> and \<open>str.upper\<close> on ASCII characters.
\<close>

definition ascii_text :: "string \<Rightarrow> bool" where
  "ascii_text s = list_all (\<lambda>c. (of_char c :: nat) < 128) s"

definition lower_letters :: string where
  "lower_letters = ''abcdefghijklmnopqrstuvwxyz''"

definition upper_letters :: string where
  "upper_letters = ''ABCDEFGHIJKLMNOPQRSTUVWXYZ''"

definition digits :: string where
  "digits = ''0123456789''"

definition upper_char :: "char \<Rightarrow> char" where
  "upper_char c = (case map_of (zip lower_letters upper_letters) c of Some u \<Rightarrow> u | None \<Rightarrow> c)"

text \<open>\<open>str.upper()\<close>\<close>

definition upper :: "string \<Rightarrow> string" where
  "upper s = map upper_char s"

text \<open>\<open>str.replace(old, new)\<close>: every occurrence, left to right, without overlap.\<close>

function str_replace :: "string \<Rightarrow> string \<Rightarrow> string \<Rightarrow> string" where
  "str_replace old new s =
     (if old = [] then new @ concat (map (\<lambda>c. c # new) s)
      else if take (length old) s = old then new @ str_replace old new (drop (length old) s)
      else (case s of [] \<Rightarrow> [] | c # cs \<Rightarrow> c # str_replace old new cs))"
  by pat_completeness auto
termination
proof (relation "measure (\<lambda>(old, new, s). length s)")
  fix old new s :: string
  assume "old \<noteq> []" and "take (length old) s = old"
  then have "length s - length old < length s"
    by (cases s; cases old) auto
  then show "((old, new, drop (length old) s), (old, new, s)) \<in> measure (\<lambda>(old, new, s). length s)"
    by simp
qed auto

declare str_replace.simps [simp del]

section \<open>\<open>scripts/analyze_jcl_to_cobol.py\<close>: the system utility classifier\<close>

definition system_programs :: "string set" where
  "system_programs =
     {''IEFBR14'', ''IDCAMS'', ''SORT'', ''SDSF'', ''IEBGENER'',
      ''IKJEFT01'', ''IKJEFT1B'', ''FTP'', ''DFHCSDUP''}"

definition is_system_program :: "string \<Rightarrow> bool" where
  "is_system_program prog_name = (prog_name \<in> system_programs)"

section \<open>\<open>scripts/analyze_jcl_to_cobol.py\<close>: classifying one invocation\<close>

text \<open>
  The index built by \<open>find_cobol_files\<close> is a dictionary from the upper-cased file stem
  to the path of the program; the scan of \<open>main\<close> keeps two \<open>defaultdict(list)\<close> and
  the three counters of \<open>stats\<close>.
\<close>

type_synonym path = string
type_synonym cobol_index = "string \<rightharpoonup> path"

record stats =
  found :: nat
  system :: nat
  missing :: nat

record scan =
  jcl_to_cobol :: "(string \<times> string list) list"
  cobol_to_jcl :: "(string \<times> string list) list"
  stats :: stats

text \<open>\<open>d[k].append(v)\<close> on a \<open>defaultdict(list)\<close>, keys kept in insertion order.\<close>

fun dd_append :: "'k \<Rightarrow> 'v \<Rightarrow> ('k \<times> 'v list) list \<Rightarrow> ('k \<times> 'v list) list" where
  "dd_append k v [] = [(k, [v])]"
| "dd_append k v ((k', vs) # d) =
     (if k' = k then (k', vs @ [v]) # d else (k', vs) # dd_append k v d)"

text \<open>
  The three branches of the \<open>if\<close>/\<open>elif\<close>/\<open>else\<close> of \<open>main\<close> (lines 149 to 163),
  named as the specification names them.
\<close>

datatype classification = Resolved path | SystemUtility | Unresolved

definition classify :: "cobol_index \<Rightarrow> string \<Rightarrow> classification" where
  "classify cobol_index prog_upper =
     (case cobol_index prog_upper of
        Some cbl_file \<Rightarrow> Resolved cbl_file
      | None \<Rightarrow> if is_system_program prog_upper then SystemUtility else Unresolved)"

text \<open>The body of \<open>for prog in programs\<close>.\<close>

definition scan_prog :: "cobol_index \<Rightarrow> string \<Rightarrow> scan \<Rightarrow> string \<Rightarrow> scan" where
  "scan_prog cobol_index jcl_name st prog =
     (let prog_upper = upper prog in
      case classify cobol_index prog_upper of
        Resolved cbl_file \<Rightarrow>
          st\<lparr>jcl_to_cobol := dd_append jcl_name prog_upper (jcl_to_cobol st),
             cobol_to_jcl := dd_append prog_upper jcl_name (cobol_to_jcl st),
             stats := (stats st)\<lparr>found := found (stats st) + 1\<rparr>\<rparr>
      | SystemUtility \<Rightarrow> st\<lparr>stats := (stats st)\<lparr>system := system (stats st) + 1\<rparr>\<rparr>
      | Unresolved \<Rightarrow> st\<lparr>stats := (stats st)\<lparr>missing := missing (stats st) + 1\<rparr>\<rparr>)"

section \<open>\<open>scripts/generate_dependency_graph_json.py\<close>\<close>

text \<open>
  The mapping artifact \<open>project-analysis.json\<close> holds a list \<open>cbl_files\<close> of entries
  with a \<open>program\<close> and its \<open>jcl_files\<close>. The graph is a dictionary with the lists
  \<open>nodes\<close> and \<open>edges\<close>; a program node carries the key \<open>jcl_files\<close>, a JCL node does
  not. The time stamp \<open>generatedAt\<close> is left out.
\<close>

record program_info =
  program :: string
  jcl_files :: "string list"

record mappings =
  statistics :: "(string \<times> int) list"
  cbl_files :: "program_info list"

record node =
  node_id :: string
  node_type :: string
  node_label :: string
  node_jcl_files :: "string list option"

record edge =
  source :: string
  target :: string
  relationship :: string

record summary =
  total_programs :: nat
  programs_with_jcl :: nat
  programs_without_jcl :: nat
  total_jcl_files :: nat

record graph =
  graph_statistics :: "(string \<times> int) list"
  nodes :: "node list"
  edges :: "edge list"

record build =
  graph :: graph
  with_jcl :: "string list"
  without_jcl :: "string list"

text \<open>The body of \<open>for jcl_file in jcl_files\<close> (lines 65 to 81).\<close>

definition add_jcl :: "string \<Rightarrow> graph \<Rightarrow> string \<Rightarrow> graph" where
  "add_jcl program_name g jcl_file =
     (let jcl_id = str_replace ''.'' ''_'' (str_replace ''.jcl'' '''' jcl_file);
          g1 = (if \<not> list_ex (\<lambda>n. node_id n = jcl_id) (nodes g)
                then g\<lparr>nodes := nodes g @
                       [\<lparr>node_id = jcl_id, node_type = ''jcl'', node_label = jcl_file,
                         node_jcl_files = None\<rparr>]\<rparr>
                else g)
      in g1\<lparr>edges := edges g1 @
               [\<lparr>source = jcl_id, target = program_name, relationship = ''executes''\<rparr>]\<rparr>)"

text \<open>The body of \<open>for program_info in mappings.get("cbl_files", [])\<close> (lines 48 to 83).\<close>

definition add_program :: "build \<Rightarrow> program_info \<Rightarrow> build" where
  "add_program b program_info =
     (let program_name = program program_info;
          g1 = (graph b)\<lparr>nodes := nodes (graph b) @
                 [\<lparr>node_id = program_name, node_type = ''program'', node_label = program_name,
                   node_jcl_files = Some (jcl_files program_info)\<rparr>]\<rparr>
      in if jcl_files program_info \<noteq> []
         then b\<lparr>graph := foldl (add_jcl program_name) g1 (jcl_files program_info),
                with_jcl := with_jcl b @ [program_name]\<rparr>
         else b\<lparr>graph := g1, without_jcl := without_jcl b @ [program_name]\<rparr>)"

definition build_graph :: "mappings \<Rightarrow> build" where
  "build_graph m =
     foldl add_program
       \<lparr>graph = \<lparr>graph_statistics = statistics m, nodes = [], edges = []\<rparr>,
        with_jcl = [], without_jcl = []\<rparr>
       (cbl_files m)"

definition graph_summary :: "mappings \<Rightarrow> build \<Rightarrow> summary" where
  "graph_summary m b =
     \<lparr>total_programs = length (cbl_files m),
      programs_with_jcl = length (with_jcl b),
      programs_without_jcl = length (without_jcl b),
      total_jcl_files = card (set (concat (map jcl_files (cbl_files m))))\<rparr>"

text \<open>
  \<open>generate_dependency_graph\<close> returns \<open>False\<close> when the mapping artifact is missing or
  unreadable (\<open>None\<close> below) and otherwise hands the graph and its summary to the writer.
\<close>

definition generate_dependency_graph :: "mappings option \<Rightarrow> (graph \<times> summary) option" where
  "generate_dependency_graph loaded =
     (case loaded of
        None \<Rightarrow> None
      | Some m \<Rightarrow> (let b = build_graph m in Some (graph b, graph_summary m b)))"

section \<open>Properties of the classifier and of one classification\<close>

text \<open>
  Claim C9. The classifier is a membership test in a fixed set of nine identifiers: it
  answers \<open>True\<close> for exactly these nine strings and \<open>False\<close> for every other one.
  It is a function of its argument alone.
\<close>

theorem is_system_program_exact:
  "is_system_program p \<longleftrightarrow>
     p \<in> set [''IEFBR14'', ''IDCAMS'', ''SORT'', ''SDSF'', ''IEBGENER'',
              ''IKJEFT01'', ''IKJEFT1B'', ''FTP'', ''DFHCSDUP'']"
  by (simp add: is_system_program_def system_programs_def)

lemma system_programs_card: "card system_programs = 9"
  by (simp add: system_programs_def)

text \<open>
  Claim C3. For every identifier and every index, the branch taken is Resolved exactly
  when the identifier is a key of the index, SystemUtility exactly when it is in the fixed
  utility set and not a key of the index, and Unresolved exactly in the remaining case; and
  each step of the scan adds one to exactly one of the three counters accordingly.
\<close>

theorem classify_exactly_one:
  "(classify idx p = Resolved f \<longleftrightarrow> idx p = Some f) \<and>
   (classify idx p = SystemUtility \<longleftrightarrow> p \<in> system_programs \<and> p \<notin> dom idx) \<and>
   (classify idx p = Unresolved \<longleftrightarrow> p \<notin> system_programs \<and> p \<notin> dom idx) \<and>
   found (stats (scan_prog idx j st q)) =
     found (stats st) + (if upper q \<in> dom idx then 1 else 0) \<and>
   system (stats (scan_prog idx j st q)) =
     system (stats st) + (if upper q \<notin> dom idx \<and> upper q \<in> system_programs then 1 else 0) \<and>
   missing (stats (scan_prog idx j st q)) =
     missing (stats st) + (if upper q \<notin> dom idx \<and> upper q \<notin> system_programs then 1 else 0)"
  by (auto simp: classify_def scan_prog_def is_system_program_def Let_def
           split: option.splits classification.splits)

section \<open>Properties of the dependency graph\<close>

lemma add_jcl_nodes_mono: "set (nodes g) \<subseteq> set (nodes (add_jcl p g j))"
  by (auto simp: add_jcl_def Let_def)

definition edge_ok :: "node list \<Rightarrow> edge \<Rightarrow> bool" where
  "edge_ok ns e =
     (list_ex (\<lambda>n. node_id n = source e) ns \<and>
      list_ex (\<lambda>n. node_id n = target e \<and> node_type n = ''program'') ns)"

definition no_dangling :: "graph \<Rightarrow> bool" where
  "no_dangling g = list_all (edge_ok (nodes g)) (edges g)"

lemma add_jcl_no_dangling:
  assumes "no_dangling g"
      and "list_ex (\<lambda>n. node_id n = p \<and> node_type n = ''program'') (nodes g)"
  shows "no_dangling (add_jcl p g j)"
  using assms
  by (auto simp: no_dangling_def add_jcl_def Let_def list_all_iff list_ex_iff edge_ok_def)

lemma foldl_add_jcl_no_dangling:
  "no_dangling g \<Longrightarrow> list_ex (\<lambda>n. node_id n = p \<and> node_type n = ''program'') (nodes g)
   \<Longrightarrow> no_dangling (foldl (add_jcl p) g js)"
proof (induction js arbitrary: g)
  case Nil
  then show ?case by simp
next
  case (Cons j js)
  have "no_dangling (add_jcl p g j)"
    using Cons.prems by (rule add_jcl_no_dangling)
  moreover have "list_ex (\<lambda>n. node_id n = p \<and> node_type n = ''program'') (nodes (add_jcl p g j))"
    using Cons.prems(2) add_jcl_nodes_mono [of g p j] by (auto simp: list_ex_iff)
  ultimately show ?case using Cons.IH by simp
qed

lemma graph_add_program:
  "graph (add_program b pi) =
     foldl (add_jcl (program pi))
       ((graph b)\<lparr>nodes := nodes (graph b) @
          [\<lparr>node_id = program pi, node_type = ''program'', node_label = program pi,
            node_jcl_files = Some (jcl_files pi)\<rparr>]\<rparr>)
       (jcl_files pi)"
  by (cases "jcl_files pi = []") (simp_all add: add_program_def Let_def)

lemma add_program_no_dangling:
  assumes "no_dangling (graph b)"
  shows "no_dangling (graph (add_program b pi))"
proof -
  let ?g1 = "(graph b)\<lparr>nodes := nodes (graph b) @
                 [\<lparr>node_id = program pi, node_type = ''program'', node_label = program pi,
                   node_jcl_files = Some (jcl_files pi)\<rparr>]\<rparr>"
  have g1: "no_dangling ?g1"
    using assms by (auto simp: no_dangling_def list_all_iff edge_ok_def list_ex_iff)
  have p: "list_ex (\<lambda>n. node_id n = program pi \<and> node_type n = ''program'') (nodes ?g1)"
    by (simp add: list_ex_iff)
  have "no_dangling (foldl (add_jcl (program pi)) ?g1 (jcl_files pi))"
    using g1 p by (rule foldl_add_jcl_no_dangling)
  then show ?thesis
    by (simp only: graph_add_program)
qed

lemma foldl_add_program_no_dangling:
  "no_dangling (graph b) \<Longrightarrow> no_dangling (graph (foldl add_program b ps))"
  by (induction ps arbitrary: b) (simp_all add: add_program_no_dangling)

text \<open>
  What holds of every graph: each edge's source is the id of some node, of whatever type,
  and its target the id of a program node. That the source is a JCL node does not hold
  (claim C10 below).
\<close>

lemma edge_ends_are_node_ids:
  "\<forall>e \<in> set (edges (graph (build_graph m))).
     (\<exists>n \<in> set (nodes (graph (build_graph m))). node_id n = source e) \<and>
     (\<exists>n \<in> set (nodes (graph (build_graph m))).
        node_id n = target e \<and> node_type n = ''program'')"
proof -
  have "no_dangling (graph (build_graph m))"
    unfolding build_graph_def
    by (rule foldl_add_program_no_dangling) (simp add: no_dangling_def)
  then show ?thesis
    by (simp add: no_dangling_def list_all_iff edge_ok_def list_ex_iff)
qed

lemma jcl_ids:
  "str_replace ''.'' ''_'' (str_replace ''.jcl'' [] ''PROGA.jcl'') = ''PROGA''"
  "str_replace ''.'' ''_'' (str_replace ''.jcl'' [] ''A.jcl'') = ''A''"
  "str_replace ''.'' ''_'' (str_replace ''.jcl'' [] ''B.jcl'') = ''B''"
  "str_replace ''.'' ''_'' (str_replace ''.jcl'' [] ''X.jcl'') = ''X''"
  by (simp_all add: str_replace.simps)

text \<open>
  Claim C5 (no two nodes share id and type; a Job node and a Program node of the same
  name both appear) does not hold of the code. The guard of line 69 looks for a node of
  any type with the job's id, against its comment ``Add JCL node if not already added''.
  The program \<open>PROGA\<close> run by the job file \<open>PROGA.jcl\<close>: the job's id is \<open>PROGA\<close>, the
  program's node has that id, so no JCL node is added and the edge runs from the program
  node to itself. Whether a job named like a program gets its node depends on the order:
  when the job is met before the program of its name (\<open>B.jcl\<close> runs \<open>A\<close>, then program
  \<open>B\<close>), both nodes are there.
\<close>

definition ex_same_name :: mappings where
  "ex_same_name =
     \<lparr>statistics = [], cbl_files = [\<lparr>program = ''PROGA'', jcl_files = [''PROGA.jcl'']\<rparr>]\<rparr>"

definition ex_job_first :: mappings where
  "ex_job_first =
     \<lparr>statistics = [],
      cbl_files = [\<lparr>program = ''A'', jcl_files = [''B.jcl'']\<rparr>,
                   \<lparr>program = ''B'', jcl_files = [''X.jcl'']\<rparr>]\<rparr>"

theorem job_named_as_program_gets_no_node:
  "nodes (graph (build_graph ex_same_name)) =
     [\<lparr>node_id = ''PROGA'', node_type = ''program'', node_label = ''PROGA'',
       node_jcl_files = Some [''PROGA.jcl'']\<rparr>] \<and>
   edges (graph (build_graph ex_same_name)) =
     [\<lparr>source = ''PROGA'', target = ''PROGA'', relationship = ''executes''\<rparr>] \<and>
   map (\<lambda>n. (node_id n, node_type n)) (nodes (graph (build_graph ex_job_first))) =
     [(''A'', ''program''), (''B'', ''jcl''), (''B'', ''program''), (''X'', ''jcl'')]"
  by (simp add: ex_same_name_def ex_job_first_def build_graph_def add_program_def add_jcl_def
        Let_def jcl_ids)

text \<open>
  Claim C10 (no edge dangles: each executes edge targets a program node and sources a job
  node) does not hold of the code as to the source. Program \<open>B\<close> run by \<open>X.jcl\<close>, then
  program \<open>C\<close> run by \<open>B.jcl\<close>: the job's id \<open>B\<close> is the id of the program node \<open>B\<close>, no
  JCL node is added, and the second edge runs from \<open>B\<close> to \<open>C\<close>, where the one node with
  the id \<open>B\<close> is a program node.
\<close>

definition ex_program_first :: mappings where
  "ex_program_first =
     \<lparr>statistics = [],
      cbl_files = [\<lparr>program = ''B'', jcl_files = [''X.jcl'']\<rparr>,
                   \<lparr>program = ''C'', jcl_files = [''B.jcl'']\<rparr>]\<rparr>"

theorem edge_source_is_a_program_node:
  "map (\<lambda>n. (node_id n, node_type n)) (nodes (graph (build_graph ex_program_first))) =
     [(''B'', ''program''), (''X'', ''jcl''), (''C'', ''program'')] \<and>
   edges (graph (build_graph ex_program_first)) =
     [\<lparr>source = ''X'', target = ''B'', relationship = ''executes''\<rparr>,
      \<lparr>source = ''B'', target = ''C'', relationship = ''executes''\<rparr>] \<and>
   filter (\<lambda>n. node_id n = ''B'' \<and> node_type n = ''jcl'')
     (nodes (graph (build_graph ex_program_first))) = []"
  by (simp add: ex_program_first_def build_graph_def add_program_def add_jcl_def Let_def jcl_ids)

end
